theory Spec2Isabelle
  imports Complex_Main
begin

section \<open>Errors\<close>

text \<open>
  Every exception the modelled code can raise is a value.  The message of
  \<open>InvalidAssociationError\<close> is built from the name and the position of an entity dict
  (\<open>"'{}' at {} is connected to an entity that no longer exists"\<close>), so the error carries both.
  The size error carries the two dimensions its message is built from.
  \<open>ValidationError\<close> is the exception of the schema library for a value that fails a
  field's test, \<open>ValidationErrorOf e\<close> the same exception when it wraps the error \<open>e\<close>
  that a validator raised, and \<open>DataFormatError e\<close> is built from the exception it is
  given (\<open>DataFormatError(e)\<close>).
\<close>

datatype 'n xy = XY (xy_x: 'n) (xy_y: 'n)

text \<open>
  \<open>UnknownKeywordWarning\<close> with what its message is formatted from: the title of the
  model, the unrecognised keys and the allowed fields.
\<close>

datatype warning = UnknownKeywordWarning string "string list" "string list"

datatype error =
    DraftsmanError
  | InvalidAssociationError string "real xy"
  | UnreasonablySizedBlueprintError int int
  | TypeError
  | ValueError
  | ValueErrorOf warning
  | IndexError
  | KeyError
  | ValidationError
  | ValidationErrorOf error
  | DataFormatError error

section \<open>Exported dictionaries\<close>

text \<open>
  The dicts that \<open>to_dict\<close> produces, typed after the classes of \<open>signatures.py\<close>
  (\<open>CircuitConnectionPoint\<close>, \<open>WireConnectionPoint\<close>, \<open>Connections\<close>) and the format
  comment at the head of \<open>blueprint.py\<close>.  An optional key is an \<open>option\<close>: \<open>None\<close> is the
  key being absent.  The type parameter \<open>'r\<close> is what a reference field holds: an
  \<open>association\<close> in memory, an integer entity number in the external representation.
  Positions are Python floats; they are idealised as reals.
\<close>

type_synonym addr = nat

datatype association = Association (referent: addr)

datatype 'r point = Point (entity_id: 'r) (circuit_id: "int option")

datatype 'r circuit_connections =
  CircuitConnections (red: "'r point list option") (green: "'r point list option")

datatype 'r connections_dict =
  Connections (Wr1: "'r circuit_connections option") (Wr2: "'r circuit_connections option")
    (Cu0: "'r point list option") (Cu1: "'r point list option")

datatype 'r entity_dict =
  EntityDict (name: string) (position: "real xy") (entity_number: "int option")
    (connections: "'r connections_dict option") (neighbours: "'r list option")
    (attributes: "(string \<times> string) list")

datatype tile_dict = TileDict (tile_name: string) (tile_position: "int xy")

datatype 'r schedule_dict = ScheduleDict (schedule: "string list") (locomotives: "'r list")

section \<open>Entities, groups and weak references\<close>

text \<open>
  Modelled from the spec: the entity classes, \<open>Group\<close> and \<open>Association\<close>, whose files are
  not among the sources.  An entity object has an identity (its address) and a dict
  representation; \<open>to_dict\<close> of a user-defined \<open>EntityLike\<close> may return something that is
  not a dict, which is \<open>None\<close> here.  A group holds entity-likes.  An \<open>Association\<close> is a
  weak reference: calling it gives the object, or Python's \<open>None\<close> once the object is gone;
  it is a callable and has no item access.  The \<open>store\<close> is the table of the objects alive
  at the time of the call.
\<close>

datatype entity = Entity (ident: addr) (entity_to_dict: "association entity_dict option")

type_synonym store = "addr \<Rightarrow> entity option"

datatype entitylike = Prim entity | Group "entitylike list"

text \<open>
  Modelled from the spec: \<open>flatten_entities\<close> of \<open>draftsman/utils.py\<close>, which is not among
  the sources.  It expands every group, recursively, into one flat ordered sequence of
  primitive entities.
\<close>

fun flatten_entity :: "entitylike \<Rightarrow> entity list" where
  "flatten_entity (Prim e) = [e]"
| "flatten_entity (Group es) = concat (map flatten_entity es)"

definition flatten_entities :: "entitylike list \<Rightarrow> entity list" where
  "flatten_entities es = concat (map flatten_entity es)"

text \<open>The number of primitive entities of a tree of groups, counted without flattening.\<close>

fun primitive_count :: "entitylike \<Rightarrow> nat" where
  "primitive_count (Prim e) = 1"
| "primitive_count (Group es) = sum_list (map primitive_count es)"

text \<open>
  Python's \<open>==\<close> on entities compares values, not identities: the tests assert that two
  separately built \<open>ElectricPole("small-electric-pole")\<close> are equal and that changing the tags
  of one makes them differ.  \<open>list.index(v)\<close> returns the position of the first element \<open>u\<close>
  with \<open>u is v or u == v\<close> and raises \<open>ValueError\<close> when there is none.
\<close>

definition entity_eq :: "entity \<Rightarrow> entity \<Rightarrow> bool" where
  "entity_eq u v = (entity_to_dict u = entity_to_dict v)"

definition py_same :: "entity \<Rightarrow> entity \<Rightarrow> bool" where
  "py_same u v = (ident u = ident v \<or> entity_eq u v)"

fun list_index :: "('a \<Rightarrow> 'a \<Rightarrow> bool) \<Rightarrow> 'a list \<Rightarrow> 'a \<Rightarrow> nat option" where
  "list_index same [] v = None"
| "list_index same (u # us) v =
     (if same u v then Some 0 else map_option Suc (list_index same us v))"

section \<open>Association resolution\<close>

text \<open>
  \<open>_throw_invalid_association\<close> subscripts its argument with \<open>"name"\<close> and \<open>"position"\<close>.
  It is called with an entity dict from the wire and neighbour loops and with the
  locomotive \<open>Association\<close> itself from the schedule loop; an \<open>Association\<close> is a weak
  reference object and cannot be subscripted.
\<close>

datatype thrown_on = OnDict "association entity_dict" | OnAssociation association

fun throw_invalid_association :: "thrown_on \<Rightarrow> error" where
  "throw_invalid_association (OnDict entity) =
     InvalidAssociationError (name entity) (position entity)"
| "throw_invalid_association (OnAssociation a) = TypeError"

text \<open>
  The body shared by the four loops:
  \<open>if old() is None: _throw_invalid_association(..) else: flattened_entities.index(old()) + 1\<close>.
\<close>

definition resolve :: "store \<Rightarrow> entity list \<Rightarrow> thrown_on \<Rightarrow> association \<Rightarrow> error + int" where
  "resolve alive flattened_entities subject old =
     (case alive (referent old) of
        None \<Rightarrow> Inl (throw_invalid_association subject)
      | Some target \<Rightarrow>
          (case list_index py_same flattened_entities target of
             None \<Rightarrow> Inl ValueError
           | Some i \<Rightarrow> Inr (int i + 1)))"

text \<open>
  A loop whose body may raise: the first error ends it.  The loops over the sides, the
  colours and the connection points of a \<open>connections\<close> dict are written twice in the
  source, once in \<open>_normalize_internal_structure\<close> and once in \<open>Blueprint.setup\<close>, in the
  same order: sides \<open>"1"\<close>, \<open>"2"\<close>, \<open>"Cu0"\<close>, \<open>"Cu1"\<close>, and within a circuit side
  \<open>red\<close> then \<open>green\<close>, the order in which class \<open>Connections\<close> declares them.  They are
  given once here, for any body \<open>r\<close>.
\<close>

fun traverse :: "('a \<Rightarrow> error + 'b) \<Rightarrow> 'a list \<Rightarrow> error + 'b list" where
  "traverse f [] = Inr []"
| "traverse f (v # vs) =
     (case f v of
        Inl e \<Rightarrow> Inl e
      | Inr w \<Rightarrow> (case traverse f vs of Inl e \<Rightarrow> Inl e | Inr ws \<Rightarrow> Inr (w # ws)))"

fun traverse_option :: "('a \<Rightarrow> error + 'b) \<Rightarrow> 'a option \<Rightarrow> error + 'b option" where
  "traverse_option f None = Inr None"
| "traverse_option f (Some v) = (case f v of Inl e \<Rightarrow> Inl e | Inr w \<Rightarrow> Inr (Some w))"

definition traverse_point :: "('a \<Rightarrow> error + 'b) \<Rightarrow> 'a point \<Rightarrow> error + 'b point" where
  "traverse_point r p =
     (case r (entity_id p) of Inl e \<Rightarrow> Inl e | Inr n \<Rightarrow> Inr (Point n (circuit_id p)))"

definition traverse_side ::
  "('a \<Rightarrow> error + 'b) \<Rightarrow> 'a circuit_connections \<Rightarrow> error + 'b circuit_connections" where
  "traverse_side r s =
     (case traverse_option (traverse (traverse_point r)) (red s) of
        Inl e \<Rightarrow> Inl e
      | Inr rd \<Rightarrow>
          (case traverse_option (traverse (traverse_point r)) (green s) of
             Inl e \<Rightarrow> Inl e
           | Inr gr \<Rightarrow> Inr (CircuitConnections rd gr)))"

definition traverse_connections ::
  "('a \<Rightarrow> error + 'b) \<Rightarrow> 'a connections_dict \<Rightarrow> error + 'b connections_dict" where
  "traverse_connections r c =
     (case traverse_option (traverse_side r) (Wr1 c) of
        Inl e \<Rightarrow> Inl e
      | Inr w1 \<Rightarrow>
     (case traverse_option (traverse_side r) (Wr2 c) of
        Inl e \<Rightarrow> Inl e
      | Inr w2 \<Rightarrow>
     (case traverse_option (traverse (traverse_point r)) (Cu0 c) of
        Inl e \<Rightarrow> Inl e
      | Inr c0 \<Rightarrow>
     (case traverse_option (traverse (traverse_point r)) (Cu1 c) of
        Inl e \<Rightarrow> Inl e
      | Inr c1 \<Rightarrow> Inr (Connections w1 w2 c0 c1)))))"

text \<open>The second loop's body for one entity dict: wire connections, then neighbours.\<close>

definition resolve_entity ::
  "store \<Rightarrow> entity list \<Rightarrow> association entity_dict \<Rightarrow> error + int entity_dict" where
  "resolve_entity alive flattened_entities entity =
     (let r = resolve alive flattened_entities (OnDict entity) in
      case traverse_option (traverse_connections r) (connections entity) of
        Inl e \<Rightarrow> Inl e
      | Inr cs \<Rightarrow>
          (case traverse_option (traverse r) (neighbours entity) of
             Inl e \<Rightarrow> Inl e
           | Inr ns \<Rightarrow>
               Inr (EntityDict (name entity) (position entity) (entity_number entity)
                      cs ns (attributes entity))))"

text \<open>
  The first loop: \<open>entities_out.append(result); entities_out[i]["entity_number"] = i + 1\<close>,
  with the \<open>DraftsmanError\<close> of a \<open>to_dict\<close> that does not return a dict.
\<close>

definition set_entity_number :: "int \<Rightarrow> 'r entity_dict \<Rightarrow> 'r entity_dict" where
  "set_entity_number n d =
     EntityDict (name d) (position d) (Some n) (connections d) (neighbours d) (attributes d)"

fun number_entities :: "nat \<Rightarrow> entity list \<Rightarrow> error + association entity_dict list" where
  "number_entities i [] = Inr []"
| "number_entities i (entity # rest) =
     (case entity_to_dict entity of
        None \<Rightarrow> Inl DraftsmanError
      | Some result \<Rightarrow>
          (case number_entities (Suc i) rest of
             Inl e \<Rightarrow> Inl e
           | Inr out \<Rightarrow> Inr (set_entity_number (int i + 1) result # out)))"

definition resolve_schedule ::
  "store \<Rightarrow> entity list \<Rightarrow> association schedule_dict \<Rightarrow> error + int schedule_dict" where
  "resolve_schedule alive flattened_entities s =
     (case traverse (\<lambda>locomotive.
               resolve alive flattened_entities (OnAssociation locomotive) locomotive)
             (locomotives s) of
        Inl e \<Rightarrow> Inl e
      | Inr ls \<Rightarrow> Inr (ScheduleDict (schedule s) ls))"

text \<open>
  \<open>_normalize_internal_structure\<close>.  The three lists it stores under \<open>"entities"\<close>,
  \<open>"tiles"\<close> and \<open>"schedules"\<close> of \<open>input_root\<close> are its result.  Tiles and schedules
  are given by their dict representations.
\<close>

record normalized =
  entities_out :: "int entity_dict list"
  tiles_out :: "tile_dict list"
  schedules_out :: "int schedule_dict list"

definition normalize_internal_structure ::
  "store \<Rightarrow> entitylike list \<Rightarrow> tile_dict list \<Rightarrow> association schedule_dict list
     \<Rightarrow> error + normalized" where
  "normalize_internal_structure alive entities_in tiles_in schedules_in =
     (let flattened_entities = flatten_entities entities_in in
      case number_entities 0 flattened_entities of
        Inl e \<Rightarrow> Inl e
      | Inr numbered \<Rightarrow>
     (case traverse (resolve_entity alive flattened_entities) numbered of
        Inl e \<Rightarrow> Inl e
      | Inr es \<Rightarrow>
     (case traverse (resolve_schedule alive flattened_entities) schedules_in of
        Inl e \<Rightarrow> Inl e
      | Inr ss \<Rightarrow>
          Inr \<lparr>entities_out = es, tiles_out = tiles_in, schedules_out = ss\<rparr>)))"

section \<open>The blueprint and its export\<close>

text \<open>
  The attributes of \<open>Blueprint\<close> that the modelled methods read or write.  The spatial
  index \<open>entity_map\<close> is represented by the objects it holds.  A tile and a schedule
  are given by their dict representations.
\<close>

datatype aabb = AABB (top_left: "real xy") (bot_right: "real xy")

record blueprint =
  snapping_grid_position :: "int xy"
  entities :: "entitylike list"
  tiles :: "tile_dict list"
  schedules :: "association schedule_dict list"
  entity_map :: "entity list"
  area :: "aabb option"
  tile_width :: int
  tile_height :: int

text \<open>
  The dict under the root item \<open>"blueprint"\<close>.  The scalar metadata that
  \<open>super().to_dict\<close> dumps (class \<open>Exportable\<close>, not among the sources) is kept as an
  opaque list of keys and values; the keys that \<open>Blueprint.to_dict\<close> itself tests or
  writes are fields.
\<close>

record blueprint_dict =
  metadata :: "(string \<times> string) list"
  key_snap_to_grid :: "int xy option"
  key_position_relative_to_grid :: "int xy option"
  key_entities :: "int entity_dict list option"
  key_tiles :: "tile_dict list option"
  key_schedules :: "int schedule_dict list option"

definition offset_entity :: "int xy \<Rightarrow> 'r entity_dict \<Rightarrow> 'r entity_dict" where
  "offset_entity g d =
     EntityDict (name d)
       (XY (xy_x (position d) - of_int (xy_x g)) (xy_y (position d) - of_int (xy_y g)))
       (entity_number d) (connections d) (neighbours d) (attributes d)"

definition offset_tile :: "int xy \<Rightarrow> tile_dict \<Rightarrow> tile_dict" where
  "offset_tile g t =
     TileDict (tile_name t)
       (XY (xy_x (tile_position t) - xy_x g) (xy_y (tile_position t) - xy_y g))"

text \<open>The five \<open>del\<close> statements that end \<open>to_dict\<close>.\<close>

definition strip_defaults :: "blueprint_dict \<Rightarrow> blueprint_dict" where
  "strip_defaults r0 =
     (let r1 = (if key_snap_to_grid r0 = Some (XY 0 0)
                then r0\<lparr>key_snap_to_grid := None\<rparr> else r0);
          r2 = (if key_position_relative_to_grid r1 = Some (XY 0 0)
                then r1\<lparr>key_position_relative_to_grid := None\<rparr> else r1);
          r3 = (if key_entities r2 = Some [] then r2\<lparr>key_entities := None\<rparr> else r2);
          r4 = (if key_tiles r3 = Some [] then r3\<lparr>key_tiles := None\<rparr> else r3)
      in if key_schedules r4 = Some [] then r4\<lparr>key_schedules := None\<rparr> else r4)"

text \<open>
  \<open>Blueprint.to_dict\<close>.  \<open>base\<close> is what \<open>super().to_dict\<close> returned under the root item.
  The method assigns to no attribute of \<open>self\<close>; the attributes after the call are the
  second component.  What it changes in place are \<open>result\<close> and the position objects of
  the dicts that the \<open>to_dict\<close> of each entity and tile returned; these objects are
  followed in the next section.
\<close>

definition to_dict ::
  "store \<Rightarrow> blueprint_dict \<Rightarrow> blueprint \<Rightarrow> (error + blueprint_dict) \<times> blueprint" where
  "to_dict alive base self =
     (case normalize_internal_structure alive (entities self) (tiles self) (schedules self) of
        Inl e \<Rightarrow> (Inl e, self)
      | Inr n \<Rightarrow>
          (let g = snapping_grid_position self;
               result = base\<lparr>key_entities := Some (map (offset_entity g) (entities_out n)),
                             key_tiles := Some (map (offset_tile g) (tiles_out n)),
                             key_schedules := Some (schedules_out n)\<rparr>
           in (Inr (strip_defaults result), self)))"

text \<open>The list under a key of the exported dict, empty when the key is absent.\<close>

definition listed :: "'a list option \<Rightarrow> 'a list" where
  "listed v = (case v of None \<Rightarrow> [] | Some vs \<Rightarrow> vs)"

section \<open>The offset, object by object\<close>

text \<open>
  The two loops of \<open>to_dict\<close> that apply the offset do not build new positions: they
  change, in place, the position object of each exported dict
  (\<open>entity["position"]["x"] -= self.snapping_grid_position.x\<close>).  Whether that object is
  the one the entity keeps depends on what the \<open>to_dict\<close> of the entity returns, which
  the sources do not hold; the comments in \<open>_normalize_internal_structure\<close> call the dict
  a copy and say that associations are not copied.  So the position objects are followed
  here one by one: the snapping grid position of the blueprint, the position that each
  entity and each tile keeps, and the position inside each dict that a \<open>to_dict\<close> of an
  entity or of a tile built anew.  An entity is named by its address, a tile by its index
  in \<open>self.tiles\<close>, a new object by the index of the dict in the exported list.
\<close>

datatype position_object =
    GridPosition
  | EntityPosition addr
  | TilePosition nat
  | DumpedEntityPosition nat
  | DumpedTilePosition nat

type_synonym memory = "position_object \<Rightarrow> real xy option"

definition real_xy :: "int xy \<Rightarrow> real xy" where
  "real_xy p = XY (of_int (xy_x p)) (of_int (xy_y p))"

text \<open>The position objects of a blueprint and what they hold before the export.\<close>

definition stored_positions :: "blueprint \<Rightarrow> memory" where
  "stored_positions self p =
     (case p of
        GridPosition \<Rightarrow> Some (real_xy (snapping_grid_position self))
      | EntityPosition a \<Rightarrow>
          (case find (\<lambda>e. ident e = a) (flatten_entities (entities self)) of
             None \<Rightarrow> None
           | Some e \<Rightarrow> map_option position (entity_to_dict e))
      | TilePosition j \<Rightarrow>
          (if j < length (tiles self) then Some (real_xy (tile_position (tiles self ! j)))
           else None)
      | DumpedEntityPosition k \<Rightarrow> None
      | DumpedTilePosition j \<Rightarrow> None)"

text \<open>
  Modelled from the spec: \<open>Entity.to_dict\<close> and \<open>Tile.to_dict\<close>, which are not among the
  sources.  \<open>shares_e e\<close> says that the dict which the \<open>to_dict\<close> of the entity \<open>e\<close>
  returns holds the position object that \<open>e\<close> keeps; otherwise it holds a new object with
  the same coordinates.  \<open>shares_t j\<close> says the same of the tile at index \<open>j\<close>.  The
  position objects of the exported dicts, in the order of the lists:
\<close>

definition entity_objects :: "(entity \<Rightarrow> bool) \<Rightarrow> blueprint \<Rightarrow> position_object list" where
  "entity_objects shares_e self =
     map (\<lambda>ke. if shares_e (snd ke) then EntityPosition (ident (snd ke))
               else DumpedEntityPosition (fst ke))
       (enumerate 0 (flatten_entities (entities self)))"

definition tile_objects :: "(nat \<Rightarrow> bool) \<Rightarrow> blueprint \<Rightarrow> position_object list" where
  "tile_objects shares_t self =
     map (\<lambda>j. if shares_t j then TilePosition j else DumpedTilePosition j)
       [0..<length (tiles self)]"

text \<open>
  Modelled from the spec: the memory once every \<open>to_dict\<close> of an entity and of a tile
  has returned.  A new position object holds the coordinates that the entity or the tile
  has; no position object that existed before has changed.
\<close>

definition after_dump :: "(entity \<Rightarrow> bool) \<Rightarrow> (nat \<Rightarrow> bool) \<Rightarrow> blueprint \<Rightarrow> memory" where
  "after_dump shares_e shares_t self p =
     (case p of
        DumpedEntityPosition k \<Rightarrow>
          (if k < length (flatten_entities (entities self))
               \<and> \<not> shares_e (flatten_entities (entities self) ! k)
           then map_option position (entity_to_dict (flatten_entities (entities self) ! k))
           else None)
      | DumpedTilePosition j \<Rightarrow>
          (if j < length (tiles self) \<and> \<not> shares_t j
           then Some (real_xy (tile_position (tiles self ! j)))
           else None)
      | _ \<Rightarrow> stored_positions self p)"

text \<open>
  The two statements of a loop body, each reading the snapping grid position as it is at
  that moment, and the two loops, which \<open>to_dict\<close> runs when the lists are built.
\<close>

definition subtract_x :: "position_object \<Rightarrow> memory \<Rightarrow> memory" where
  "subtract_x p mem =
     (case mem p of
        None \<Rightarrow> mem
      | Some v \<Rightarrow>
          (case mem GridPosition of
             None \<Rightarrow> mem
           | Some g \<Rightarrow> mem(p \<mapsto> XY (xy_x v - xy_x g) (xy_y v))))"

definition subtract_y :: "position_object \<Rightarrow> memory \<Rightarrow> memory" where
  "subtract_y p mem =
     (case mem p of
        None \<Rightarrow> mem
      | Some v \<Rightarrow>
          (case mem GridPosition of
             None \<Rightarrow> mem
           | Some g \<Rightarrow> mem(p \<mapsto> XY (xy_x v) (xy_y v - xy_y g))))"

definition subtract_grid :: "position_object \<Rightarrow> memory \<Rightarrow> memory" where
  "subtract_grid p mem = subtract_y p (subtract_x p mem)"

definition memory_after :: "(entity \<Rightarrow> bool) \<Rightarrow> (nat \<Rightarrow> bool) \<Rightarrow> blueprint \<Rightarrow> memory" where
  "memory_after shares_e shares_t self =
     fold subtract_grid (tile_objects shares_t self)
       (fold subtract_grid (entity_objects shares_e self)
          (after_dump shares_e shares_t self))"

section \<open>Inserting an entity\<close>

text \<open>
  Modelled from the spec: \<open>extend_aabb\<close> and \<open>aabb_to_dimensions\<close> of
  \<open>draftsman/utils.py\<close>, which is not among the sources.  The first extends a running
  bounding box, the second converts it to a tile-rounded width and height; the docstrings
  of \<open>tile_width\<close> and \<open>tile_height\<close> say rounded up.
\<close>

definition extend_aabb :: "aabb option \<Rightarrow> aabb option \<Rightarrow> aabb option" where
  "extend_aabb a b =
     (case a of
        None \<Rightarrow> b
      | Some p \<Rightarrow>
          (case b of
             None \<Rightarrow> Some p
           | Some q \<Rightarrow>
               Some (AABB
                 (XY (min (xy_x (top_left p)) (xy_x (top_left q)))
                     (min (xy_y (top_left p)) (xy_y (top_left q))))
                 (XY (max (xy_x (bot_right p)) (xy_x (bot_right q)))
                     (max (xy_y (bot_right p)) (xy_y (bot_right q)))))))"

definition aabb_to_dimensions :: "aabb option \<Rightarrow> int \<times> int" where
  "aabb_to_dimensions a =
     (case a of
        None \<Rightarrow> (0, 0)
      | Some p \<Rightarrow>
          (\<lceil>xy_x (bot_right p) - xy_x (top_left p)\<rceil>,
           \<lceil>xy_y (bot_right p) - xy_y (top_left p)\<rceil>))"

text \<open>
  Modelled from the spec: \<open>SpatialHashMap.handle_overlapping\<close>, \<open>Entity.mergable_with\<close>
  and \<open>Entity.merge\<close>, which are not among the sources.  The candidates are the objects of
  the index whose bounding box intersects that of the new object.  With \<open>merge\<close> set, the
  first candidate of the same name and placement takes the mergeable fields of the new
  object and the call returns \<open>None\<close>; otherwise the new object is returned.  The tests
  show what is placement and what is mergeable: two containers of one name at one position
  are mergeable whatever their \<open>bar\<close>, \<open>request_filters\<close> and \<open>tags\<close>
  (\<open>test_logistic_storage_container.py\<close>), two poles of one name at one position
  whatever their wires (\<open>test_electric_pole.py\<close>).  The candidate is changed in place,
  so every container that holds it sees the change.  The overlap warnings that the call
  issues are left out.
\<close>

definition aabb_overlaps :: "aabb \<Rightarrow> aabb \<Rightarrow> bool" where
  "aabb_overlaps p q =
     (xy_x (top_left p) < xy_x (bot_right q) \<and> xy_x (top_left q) < xy_x (bot_right p)
      \<and> xy_y (top_left p) < xy_y (bot_right q) \<and> xy_y (top_left q) < xy_y (bot_right p))"

definition query :: "(entity \<Rightarrow> aabb option) \<Rightarrow> entity list \<Rightarrow> aabb option \<Rightarrow> entity list" where
  "query bbox index box =
     (case box of
        None \<Rightarrow> []
      | Some q \<Rightarrow>
          filter (\<lambda>c. case bbox c of None \<Rightarrow> False | Some p \<Rightarrow> aabb_overlaps p q) index)"

definition mergable_with :: "entity \<Rightarrow> entity \<Rightarrow> bool" where
  "mergable_with c new =
     (case entity_to_dict c of
        None \<Rightarrow> False
      | Some d \<Rightarrow>
          (case entity_to_dict new of
             None \<Rightarrow> False
           | Some d' \<Rightarrow> name d = name d' \<and> position d = position d'))"

text \<open>
  Modelled from the spec: \<open>Entity.merge\<close> and the \<open>merge\<close> of the mixins for wire
  connections and neighbours, which are not among the sources.  The tests show what the
  survivor takes.  After \<open>container1.merge(container2)\<close> the \<open>bar\<close>, the
  \<open>request_filters\<close> and the \<open>tags\<close> are those of \<open>container2\<close>: the attributes of
  the survivor are those of the new object.  After a wired pole has been merged into a pole
  without wires the survivor carries the wire: the survivor keeps its own wire connections
  and neighbours, in their order, and takes those of the new object that it does not have
  yet, side by side and colour by colour.  What a third object refers to is not changed
  here.
\<close>

definition merge_option :: "('a \<Rightarrow> 'a \<Rightarrow> 'a) \<Rightarrow> 'a option \<Rightarrow> 'a option \<Rightarrow> 'a option" where
  "merge_option f own other =
     (case other of
        None \<Rightarrow> own
      | Some t \<Rightarrow> (case own of None \<Rightarrow> Some t | Some s \<Rightarrow> Some (f s t)))"

definition merge_points :: "'a list \<Rightarrow> 'a list \<Rightarrow> 'a list" where
  "merge_points own other = own @ filter (\<lambda>p. p \<notin> set own) other"

definition merge_side ::
  "'r circuit_connections \<Rightarrow> 'r circuit_connections \<Rightarrow> 'r circuit_connections" where
  "merge_side s t =
     CircuitConnections (merge_option merge_points (red s) (red t))
       (merge_option merge_points (green s) (green t))"

definition merge_connections ::
  "'r connections_dict \<Rightarrow> 'r connections_dict \<Rightarrow> 'r connections_dict" where
  "merge_connections c c' =
     Connections (merge_option merge_side (Wr1 c) (Wr1 c'))
       (merge_option merge_side (Wr2 c) (Wr2 c'))
       (merge_option merge_points (Cu0 c) (Cu0 c'))
       (merge_option merge_points (Cu1 c) (Cu1 c'))"

text \<open>
  Modelled from the spec: \<open>Entity.merge\<close>, as described above; \<open>c\<close> is the survivor.
\<close>

definition entity_merge :: "entity \<Rightarrow> entity \<Rightarrow> entity" where
  "entity_merge c new =
     (case entity_to_dict c of
        None \<Rightarrow> c
      | Some d \<Rightarrow>
          (case entity_to_dict new of
             None \<Rightarrow> c
           | Some d' \<Rightarrow>
               Entity (ident c)
                 (Some (EntityDict (name d) (position d) (entity_number d)
                          (merge_option merge_connections (connections d) (connections d'))
                          (merge_option merge_points (neighbours d) (neighbours d'))
                          (attributes d')))))"

fun first_mergable :: "entity \<Rightarrow> entity list \<Rightarrow> entity option" where
  "first_mergable new [] = None"
| "first_mergable new (c # cs) =
     (if mergable_with c new then Some c else first_mergable new cs)"

fun update_entitylike :: "entity \<Rightarrow> entitylike \<Rightarrow> entitylike" where
  "update_entitylike c' (Prim e) = Prim (if ident e = ident c' then c' else e)"
| "update_entitylike c' (Group es) = Group (map (update_entitylike c') es)"

definition update_object :: "entity \<Rightarrow> blueprint \<Rightarrow> blueprint" where
  "update_object c' self =
     self\<lparr>entities := map (update_entitylike c') (entities self),
          entity_map := map (\<lambda>e. if ident e = ident c' then c' else e) (entity_map self)\<rparr>"

definition handle_overlapping ::
  "(entity \<Rightarrow> aabb option) \<Rightarrow> blueprint \<Rightarrow> entity \<Rightarrow> bool \<Rightarrow> entity option \<times> blueprint" where
  "handle_overlapping bbox self new merge =
     (if merge then
        (case first_mergable new (query bbox (entity_map self) (bbox new)) of
           None \<Rightarrow> (Some new, self)
         | Some c \<Rightarrow> (None, update_object (entity_merge c new) self))
      else (Some new, self))"

text \<open>
  \<open>Blueprint.on_entity_insert\<close>.  \<open>bbox\<close> is \<open>get_world_bounding_box\<close> and \<open>on_insert\<close> the
  entity's own check, which may raise; both belong to the entity classes, which are not
  among the sources, and are parameters.  An exception leaves the attributes as they were
  when it was raised, so the blueprint is returned beside the result in every case.
\<close>

definition on_entity_insert ::
  "(entity \<Rightarrow> aabb option) \<Rightarrow> (entity \<Rightarrow> blueprint \<Rightarrow> error option)
     \<Rightarrow> blueprint \<Rightarrow> entity \<Rightarrow> bool \<Rightarrow> (error + entity option) \<times> blueprint" where
  "on_entity_insert bbox on_insert self entitylike merge =
     (case handle_overlapping bbox self entitylike merge of
        (None, s1) \<Rightarrow> (Inr None, s1)
      | (Some e, s1) \<Rightarrow>
          (case on_insert e s1 of
             Some err \<Rightarrow> (Inl err, s1)
           | None \<Rightarrow>
               (let s2 = s1\<lparr>entity_map := entity_map s1 @ [e]\<rparr>;
                    s3 = s2\<lparr>area := extend_aabb (area s2) (bbox e)\<rparr>;
                    s4 = s3\<lparr>tile_width := fst (aabb_to_dimensions (area s3)),
                            tile_height := snd (aabb_to_dimensions (area s3))\<rparr>
                in if tile_width s4 > 10000 \<or> tile_height s4 > 10000
                   then (Inl (UnreasonablySizedBlueprintError (tile_width s4) (tile_height s4)),
                         s4)
                   else (Inr (Some e), s4))))"

text \<open>
  Modelled from the spec: \<open>EntityList.append\<close> of \<open>draftsman/classes/entity_list.py\<close>, which
  is not among the sources.  It calls the parent's \<open>on_entity_insert\<close>; when that returns
  \<open>None\<close> the entity was merged and the list does not grow, otherwise the returned object is
  appended.  An exception of the callback leaves the list as it was.
\<close>

definition entities_append ::
  "(entity \<Rightarrow> aabb option) \<Rightarrow> (entity \<Rightarrow> blueprint \<Rightarrow> error option)
     \<Rightarrow> blueprint \<Rightarrow> entity \<Rightarrow> bool \<Rightarrow> error option \<times> blueprint" where
  "entities_append bbox on_insert self e merge =
     (case on_entity_insert bbox on_insert self e merge of
        (Inl err, s) \<Rightarrow> (Some err, s)
      | (Inr None, s) \<Rightarrow> (None, s)
      | (Inr (Some e'), s) \<Rightarrow> (None, s\<lparr>entities := entities s @ [Prim e']\<rparr>))"

definition empty_blueprint :: blueprint where
  "empty_blueprint =
     \<lparr>snapping_grid_position = XY 0 0, entities = [], tiles = [], schedules = [],
      entity_map = [], area = None, tile_width = 0, tile_height = 0\<rparr>"

section \<open>Import: integer references to associations\<close>

text \<open>
  The loops that end \<open>Blueprint.setup\<close>.  By then \<open>self.entities\<close> holds one object for
  each entity record of the input, in the order of the input; the object at list index
  \<open>k\<close> is given the address \<open>k\<close>.  \<open>self.entities[old]\<close> is Python indexing: a negative
  index counts from the end, an index out of range raises \<open>IndexError\<close>.
\<close>

definition py_getitem :: "'a list \<Rightarrow> int \<Rightarrow> error + 'a" where
  "py_getitem xs i =
     (if 0 \<le> i \<and> i < int (length xs) then Inr (xs ! nat i)
      else if i < 0 \<and> - int (length xs) \<le> i then Inr (xs ! nat (int (length xs) + i))
      else Inl IndexError)"

definition rehydrate :: "addr list \<Rightarrow> int \<Rightarrow> error + association" where
  "rehydrate idents n =
     (case py_getitem idents (n - 1) of Inl e \<Rightarrow> Inl e | Inr a \<Rightarrow> Inr (Association a))"

text \<open>
  Modelled from the spec: \<open>EntityList\<close> and the entity classes, which are not among the
  sources.  \<open>EntityList(self, entities)\<close> builds one entity object for each record of the
  input, in the order of the input.  An object dumps no key that is at its default value
  (the spec: default and \<open>None\<close> fields are omitted).  Of the reference keys, an empty
  \<open>neighbours\<close> list and a \<open>connections\<close> dict without sides are the defaults
  (\<open>neighbours = []\<close> and \<open>connections = Connections()\<close> in \<open>ElectricPole.__init__\<close>);
  they hold no reference, so the loops of \<open>setup\<close> do nothing on them.  Which of the other
  keys of a record are at their default is the parameter \<open>is_default\<close>, asked with the name
  of the entity.  The dict of an entity object does not hold an entity number: the export
  assigns it.
\<close>

definition omit_defaults ::
  "(string \<Rightarrow> string \<times> string \<Rightarrow> bool) \<Rightarrow> 'r entity_dict \<Rightarrow> 'r entity_dict" where
  "omit_defaults is_default d =
     EntityDict (name d) (position d) None
       (if connections d = Some (Connections None None None None) then None else connections d)
       (if neighbours d = Some [] then None else neighbours d)
       (filter (\<lambda>kv. \<not> is_default (name d) kv) (attributes d))"

text \<open>
  Modelled from the spec: the object that \<open>EntityList\<close> builds from one record, once the
  body of the first loop of \<open>setup\<close> has run on it.  The loop body is from the source:
  the references of the connections, then those of the neighbours.
\<close>

definition rehydrate_entity ::
  "(string \<Rightarrow> string \<times> string \<Rightarrow> bool) \<Rightarrow> addr list \<Rightarrow> addr \<times> int entity_dict
     \<Rightarrow> error + entity" where
  "rehydrate_entity is_default idents ad =
     (let d = omit_defaults is_default (snd ad) in
      case traverse_option (traverse_connections (rehydrate idents)) (connections d) of
        Inl e \<Rightarrow> Inl e
      | Inr cs \<Rightarrow>
          (case traverse_option (traverse (rehydrate idents)) (neighbours d) of
             Inl e \<Rightarrow> Inl e
           | Inr ns \<Rightarrow>
               Inr (Entity (fst ad)
                      (Some (EntityDict (name d) (position d) None cs ns (attributes d))))))"

definition rehydrate_schedule ::
  "addr list \<Rightarrow> int schedule_dict \<Rightarrow> error + association schedule_dict" where
  "rehydrate_schedule idents s =
     (case traverse (rehydrate idents) (locomotives s) of
        Inl e \<Rightarrow> Inl e
      | Inr ls \<Rightarrow> Inr (ScheduleDict (schedule s) ls))"

text \<open>
  The two loops that end \<open>setup\<close>: over the objects that \<open>EntityList\<close> built from the
  records \<open>ds\<close>, and over the schedules \<open>ss\<close>.
\<close>

definition setup_associations ::
  "(string \<Rightarrow> string \<times> string \<Rightarrow> bool) \<Rightarrow> int entity_dict list \<Rightarrow> int schedule_dict list
     \<Rightarrow> error + (entity list \<times> association schedule_dict list)" where
  "setup_associations is_default ds ss =
     (let idents = [0..<length ds] in
      case traverse (rehydrate_entity is_default idents) (zip idents ds) of
        Inl e \<Rightarrow> Inl e
      | Inr objs \<Rightarrow>
          (case traverse (rehydrate_schedule idents) ss of
             Inl e \<Rightarrow> Inl e
           | Inr scheds \<Rightarrow> Inr (objs, scheds)))"

text \<open>The store in which exactly the given objects are alive.\<close>

definition store_of :: "entity list \<Rightarrow> store" where
  "store_of objs a = find (\<lambda>e. ident e = a) objs"

section \<open>Validation: unrecognised keys\<close>


datatype pyval = PyNone | PyBool bool | PyInt int | PyFloat real | PyStr string














section \<open>Colours\<close>

text \<open>
  Class \<open>Color\<close>: three required channels and an optional alpha, each a float between 0
  and 255, and a \<open>"before"\<close> validator that turns a list or a tuple into a mapping.  Its
  reads of elements 0, 1 and 2 are unguarded; only the read of element 3 catches
  \<open>IndexError\<close>.  Which values the schema library takes for a float, and as which float,
  is the parameter \<open>to_float\<close>; \<open>as_float\<close> is the conversion that takes ints and
  floats only.  Keys that name no field are kept by the class and are not part of the
  colour here.
\<close>

record color =
  color_r :: real
  color_g :: real
  color_b :: real
  color_a :: "real option"

datatype color_input = FromSequence "pyval list" | FromMapping "(string \<times> pyval) list"

definition normalize_from_sequence :: "color_input \<Rightarrow> error + (string \<times> pyval) list" where
  "normalize_from_sequence v =
     (case v of
        FromMapping m \<Rightarrow> Inr m
      | FromSequence vs \<Rightarrow>
          if length vs < 3 then Inl IndexError
          else Inr ([(''r'', vs ! 0), (''g'', vs ! 1), (''b'', vs ! 2)]
                    @ (if 3 < length vs then [(''a'', vs ! 3)] else [])))"

definition as_float :: "pyval \<Rightarrow> real option" where
  "as_float v = (case v of PyInt n \<Rightarrow> Some (of_int n) | PyFloat x \<Rightarrow> Some x | _ \<Rightarrow> None)"

definition channel :: "(pyval \<Rightarrow> real option) \<Rightarrow> pyval \<Rightarrow> error + real" where
  "channel to_float v =
     (case to_float v of
        None \<Rightarrow> Inl ValidationError
      | Some x \<Rightarrow> if 0 \<le> x \<and> x \<le> 255 then Inr x else Inl ValidationError)"

definition required_channel ::
  "(pyval \<Rightarrow> real option) \<Rightarrow> (string \<times> pyval) list \<Rightarrow> string \<Rightarrow> error + real" where
  "required_channel to_float m k =
     (case map_of m k of None \<Rightarrow> Inl ValidationError | Some v \<Rightarrow> channel to_float v)"

definition optional_channel ::
  "(pyval \<Rightarrow> real option) \<Rightarrow> (string \<times> pyval) list \<Rightarrow> string \<Rightarrow> error + real option" where
  "optional_channel to_float m k =
     (case map_of m k of
        None \<Rightarrow> Inr None
      | Some v \<Rightarrow>
          if v = PyNone then Inr None
          else (case channel to_float v of Inl e \<Rightarrow> Inl e | Inr x \<Rightarrow> Inr (Some x)))"

definition Color :: "(pyval \<Rightarrow> real option) \<Rightarrow> color_input \<Rightarrow> error + color" where
  "Color to_float v =
     (case normalize_from_sequence v of
        Inl e \<Rightarrow> Inl e
      | Inr m \<Rightarrow>
     (case required_channel to_float m ''r'' of Inl e \<Rightarrow> Inl e | Inr r \<Rightarrow>
     (case required_channel to_float m ''g'' of Inl e \<Rightarrow> Inl e | Inr g \<Rightarrow>
     (case required_channel to_float m ''b'' of Inl e \<Rightarrow> Inl e | Inr b \<Rightarrow>
     (case optional_channel to_float m ''a'' of Inl e \<Rightarrow> Inl e | Inr a \<Rightarrow>
        Inr \<lparr>color_r = r, color_g = g, color_b = b, color_a = a\<rparr>)))))"

section \<open>What a resolved reference is\<close>

text \<open>
  \<open>first_equal alive flat a n\<close>: the referent of \<open>a\<close> is alive and \<open>n\<close> is one more than
  the index of the first element of \<open>flat\<close> that is the referent or compares equal to it.
  \<open>refs_related R d d'\<close>: the reference fields of two entity dicts have the same shape and
  hold \<open>R\<close>-related references at the same places.
\<close>

definition first_equal :: "store \<Rightarrow> entity list \<Rightarrow> association \<Rightarrow> int \<Rightarrow> bool" where
  "first_equal alive flat a n =
     (case alive (referent a) of
        None \<Rightarrow> False
      | Some t \<Rightarrow>
          (\<exists>i\<in>{..<length flat}. n = int i + 1 \<and> py_same (flat ! i) t
              \<and> (\<forall>k\<in>{..<i}. \<not> py_same (flat ! k) t)))"

definition refs_related :: "('a \<Rightarrow> 'b \<Rightarrow> bool) \<Rightarrow> 'a entity_dict \<Rightarrow> 'b entity_dict \<Rightarrow> bool" where
  "refs_related R d d' =
     (rel_option (rel_connections_dict R) (connections d) (connections d')
      \<and> rel_option (list_all2 R) (neighbours d) (neighbours d'))"

text \<open>
  \<open>resolvable alive flat a\<close>: the referent of \<open>a\<close> is alive and some element of \<open>flat\<close>
  is the referent or compares equal to it.
\<close>

definition resolvable :: "store \<Rightarrow> entity list \<Rightarrow> association \<Rightarrow> bool" where
  "resolvable alive flat a =
     (case alive (referent a) of
        None \<Rightarrow> False
      | Some t \<Rightarrow> list_ex (\<lambda>u. py_same u t) flat)"

section \<open>Example blueprints\<close>

definition pole :: "addr \<Rightarrow> real \<Rightarrow> association list option \<Rightarrow> entity" where
  "pole a x ns =
     Entity a (Some (EntityDict ''small-electric-pole'' (XY x (1/2)) None None ns []))"

text \<open>A pole connected to the first of two poles that sit in a group.\<close>

definition grouped_entities :: "entitylike list" where
  "grouped_entities =
     [Prim (pole 0 (1/2) (Some [Association 1])),
      Group [Prim (pole 1 (5/2) None), Prim (pole 2 (9/2) None)]]"

definition grouped_blueprint :: blueprint where
  "grouped_blueprint =
     \<lparr>snapping_grid_position = XY 1 2, entities = grouped_entities,
      tiles = [TileDict ''landfill'' (XY 3 4)], schedules = [],
      entity_map = flatten_entities grouped_entities, area = None,
      tile_width = 0, tile_height = 0\<rparr>"

definition grouped_alive :: store where
  "grouped_alive = store_of (flatten_entities grouped_entities)"

definition plain_base :: blueprint_dict where
  "plain_base =
     \<lparr>metadata = [(''item'', ''blueprint'')], key_snap_to_grid = Some (XY 0 0),
      key_position_relative_to_grid = Some (XY 0 0), key_entities = None, key_tiles = None,
      key_schedules = None\<rparr>"

definition grouped_result :: blueprint_dict where
  "grouped_result =
     \<lparr>metadata = [(''item'', ''blueprint'')], key_snap_to_grid = None,
      key_position_relative_to_grid = None,
      key_entities =
        Some [EntityDict ''small-electric-pole'' (XY (- (1/2)) (- (3/2))) (Some 1) None
                (Some [2]) [],
              EntityDict ''small-electric-pole'' (XY (3/2) (- (3/2))) (Some 2) None None [],
              EntityDict ''small-electric-pole'' (XY (7/2) (- (3/2))) (Some 3) None None []],
      key_tiles = Some [TileDict ''landfill'' (XY 2 2)],
      key_schedules = None\<rparr>"

definition empty_result :: blueprint_dict where
  "empty_result =
     \<lparr>metadata = [(''item'', ''blueprint'')], key_snap_to_grid = None,
      key_position_relative_to_grid = None, key_entities = None, key_tiles = None,
      key_schedules = None\<rparr>"

text \<open>
  Four poles: one alone, then two that compare equal (same name, same position, same
  neighbour), then a fourth that is connected to both of them.
\<close>

definition twin_entities :: "entitylike list" where
  "twin_entities =
     [Prim (pole 0 (1/2) None),
      Prim (pole 1 (5/2) (Some [Association 3])),
      Prim (pole 2 (5/2) (Some [Association 3])),
      Prim (pole 3 (9/2) (Some [Association 1, Association 2]))]"

definition twin_alive :: store where
  "twin_alive = store_of (flatten_entities twin_entities)"

definition twin_normalized :: normalized where
  "twin_normalized =
     \<lparr>entities_out =
        [EntityDict ''small-electric-pole'' (XY (1/2) (1/2)) (Some 1) None None [],
         EntityDict ''small-electric-pole'' (XY (5/2) (1/2)) (Some 2) None (Some [4]) [],
         EntityDict ''small-electric-pole'' (XY (5/2) (1/2)) (Some 3) None (Some [4]) [],
         EntityDict ''small-electric-pole'' (XY (9/2) (1/2)) (Some 4) None (Some [2, 2]) []],
      tiles_out = [], schedules_out = []\<rparr>"

text \<open>
  A blueprint whose only schedule names a locomotive that no longer exists, and one whose
  only entity has a neighbour that no longer exists.  Nothing is alive at address 7.
\<close>

definition stale_schedule_blueprint :: blueprint where
  "stale_schedule_blueprint =
     empty_blueprint\<lparr>schedules := [ScheduleDict [''Station A''] [Association 7]]\<rparr>"

definition stale_neighbour_blueprint :: blueprint where
  "stale_neighbour_blueprint =
     empty_blueprint\<lparr>entities := [Prim (pole 0 (1/2) (Some [Association 7]))]\<rparr>"

definition stale_neighbour_alive :: store where
  "stale_neighbour_alive = store_of [pole 0 (1/2) (Some [Association 7])]"

text \<open>
  Chests one tile wide, with the bounding box that their position gives them; a chest at
  the origin, a chest 10001 tiles to its right, and a second chest at the origin with
  other mergeable fields.
\<close>

definition chest :: "addr \<Rightarrow> real \<Rightarrow> (string \<times> string) list \<Rightarrow> entity" where
  "chest a x attrs =
     Entity a (Some (EntityDict ''logistic-chest-storage'' (XY x (1/2)) None None None attrs))"

definition tile_box :: "entity \<Rightarrow> aabb option" where
  "tile_box e =
     (case entity_to_dict e of
        None \<Rightarrow> None
      | Some d \<Rightarrow>
          Some (AABB (XY (xy_x (position d) - 1/2) (xy_y (position d) - 1/2))
                     (XY (xy_x (position d) + 1/2) (xy_y (position d) + 1/2))))"

definition no_check :: "entity \<Rightarrow> blueprint \<Rightarrow> error option" where
  "no_check e self = None"

definition one_chest :: blueprint where
  "one_chest =
     \<lparr>snapping_grid_position = XY 0 0, entities = [Prim (chest 0 (1/2) [])], tiles = [],
      schedules = [], entity_map = [chest 0 (1/2) []],
      area = Some (AABB (XY 0 0) (XY 1 1)), tile_width = 1, tile_height = 1\<rparr>"








text \<open>
  An external representation of the four poles, in which the fourth pole names entities 2
  and 3 as its neighbours; the blueprint that holds the objects its import builds; and
  what the export of that blueprint gives.
\<close>

definition pole_record :: "int \<Rightarrow> real \<Rightarrow> int list option \<Rightarrow> int entity_dict" where
  "pole_record n x ns = EntityDict ''small-electric-pole'' (XY x (1/2)) (Some n) None ns []"

definition twin_dicts :: "int entity_dict list" where
  "twin_dicts =
     [pole_record 1 (1/2) None, pole_record 2 (5/2) (Some [4]),
      pole_record 3 (5/2) (Some [4]), pole_record 4 (9/2) (Some [2, 3])]"

definition twin_blueprint :: blueprint where
  "twin_blueprint = empty_blueprint\<lparr>entities := twin_entities\<rparr>"

definition twin_export :: blueprint_dict where
  "twin_export =
     \<lparr>metadata = [(''item'', ''blueprint'')], key_snap_to_grid = None,
      key_position_relative_to_grid = None,
      key_entities =
        Some [pole_record 1 (1/2) None, pole_record 2 (5/2) (Some [4]),
              pole_record 3 (5/2) (Some [4]), pole_record 4 (9/2) (Some [2, 2])],
      key_tiles = None, key_schedules = None\<rparr>"

section \<open>Generic facts about the loops\<close>

lemma traverse_length: "traverse f vs = Inr ws \<Longrightarrow> length ws = length vs"
  by (induction vs arbitrary: ws) (auto split: sum.splits)

lemma traverse_nth:
  "traverse f vs = Inr ws \<Longrightarrow> k < length vs \<Longrightarrow> f (vs ! k) = Inr (ws ! k)"
proof (induction vs arbitrary: ws k)
  case Nil
  then show ?case by simp
next
  case (Cons v vs)
  then show ?case
    by (cases k) (auto split: sum.splits)
qed

lemma number_entities_length:
  "number_entities i es = Inr out \<Longrightarrow> length out = length es"
  by (induction es arbitrary: i out) (auto split: option.splits sum.splits)

lemma number_entities_nth:
  "number_entities i es = Inr out \<Longrightarrow> k < length es
     \<Longrightarrow> entity_to_dict (es ! k) \<noteq> None
       \<and> out ! k = set_entity_number (int (i + k) + 1) (the (entity_to_dict (es ! k)))"
proof (induction es arbitrary: i out k)
  case Nil
  then show ?case by simp
next
  case (Cons e es)
  then show ?case
    by (cases k) (auto split: option.splits sum.splits)
qed

lemma resolve_entity_number:
  "resolve_entity alive flat d = Inr d' \<Longrightarrow> entity_number d' = entity_number d"
  by (auto simp: resolve_entity_def Let_def split: sum.splits)

lemma flatten_entities_count:
  "length (flatten_entities es) = sum_list (map primitive_count es)"
proof -
  have one: "length (flatten_entity e) = primitive_count e" for e
    by (induction e) (simp_all add: length_concat comp_def cong: map_cong)
  show ?thesis
    by (simp add: flatten_entities_def length_concat comp_def one)
qed

lemma strip_defaults_listed:
  "listed (key_entities (strip_defaults r)) = listed (key_entities r)"
  "listed (key_tiles (strip_defaults r)) = listed (key_tiles r)"
  "listed (key_schedules (strip_defaults r)) = listed (key_schedules r)"
  by (auto simp: strip_defaults_def Let_def listed_def split: option.splits)

lemma entity_number_offset: "entity_number (offset_entity g d) = entity_number d"
  by (simp add: offset_entity_def)

lemma entity_number_set: "entity_number (set_entity_number n d) = Some n"
  by (simp add: set_entity_number_def)

lemma to_dict_Inr:
  assumes "to_dict alive base self = (Inr result, self')"
  shows "\<exists>n. normalize_internal_structure alive (entities self) (tiles self) (schedules self)
              = Inr n
           \<and> result = strip_defaults
               (base\<lparr>key_entities :=
                        Some (map (offset_entity (snapping_grid_position self)) (entities_out n)),
                     key_tiles :=
                        Some (map (offset_tile (snapping_grid_position self)) (tiles_out n)),
                     key_schedules := Some (schedules_out n)\<rparr>)
           \<and> self' = self"
proof (cases "normalize_internal_structure alive (entities self) (tiles self) (schedules self)")
  case (Inl e)
  with assms show ?thesis by (simp add: to_dict_def)
next
  case (Inr n)
  with assms show ?thesis by (auto simp: to_dict_def Let_def)
qed

lemma normalize_numbers:
  assumes "normalize_internal_structure alive es ts ss = Inr n"
  shows "map entity_number (entities_out n) = map Some [1 .. int (length (flatten_entities es))]"
proof -
  let ?flat = "flatten_entities es"
  from assms obtain numbered where
    num: "number_entities 0 ?flat = Inr numbered" and
    tr: "traverse (resolve_entity alive ?flat) numbered = Inr (entities_out n)"
    by (auto simp: normalize_internal_structure_def Let_def split: sum.splits)
  have len1: "length numbered = length ?flat"
    using num by (rule number_entities_length)
  have len2: "length (entities_out n) = length ?flat"
    using traverse_length [OF tr] len1 by simp
  have nth: "entity_number (entities_out n ! k) = Some (int k + 1)" if "k < length ?flat" for k
  proof -
    have "resolve_entity alive ?flat (numbered ! k) = Inr (entities_out n ! k)"
      using traverse_nth [OF tr] that len1 by simp
    then have "entity_number (entities_out n ! k) = entity_number (numbered ! k)"
      by (rule resolve_entity_number)
    also have "\<dots> = Some (int k + 1)"
      using number_entities_nth [OF num that] by (simp add: entity_number_set)
    finally show ?thesis .
  qed
  show ?thesis
    by (rule nth_equalityI) (simp_all add: len2 nth)
qed

section \<open>Entity numbering\<close>

text \<open>
  C1.  Whenever \<open>to_dict\<close> returns, the entity numbers of the exported entity list, read
  in order, are exactly \<open>1, 2, \<dots>, N\<close>, where \<open>N\<close> is the number of primitive entities of
  the blueprint, those inside groups included.  (When \<open>N = 0\<close> the key is absent and the list
  is empty.)
\<close>

theorem entity_numbering:
  assumes "to_dict alive base self = (Inr result, self')"
  shows "map entity_number (listed (key_entities result))
           = map Some [1 .. int (sum_list (map primitive_count (entities self)))]"
proof -
  from to_dict_Inr [OF assms] obtain n where
    n: "normalize_internal_structure alive (entities self) (tiles self) (schedules self) = Inr n"
    and res: "result = strip_defaults
       (base\<lparr>key_entities :=
                Some (map (offset_entity (snapping_grid_position self)) (entities_out n)),
             key_tiles := Some (map (offset_tile (snapping_grid_position self)) (tiles_out n)),
             key_schedules := Some (schedules_out n)\<rparr>)"
    by blast
  have r: "listed (key_entities result)
              = map (offset_entity (snapping_grid_position self)) (entities_out n)"
    unfolding res strip_defaults_listed by (simp add: listed_def)
  show ?thesis
    using normalize_numbers [OF n]
    by (simp add: r flatten_entities_count comp_def entity_number_offset)
qed

section \<open>Resolution by equality\<close>

lemma list_index_Some:
  "list_index same xs v = Some i
     \<Longrightarrow> i < length xs \<and> same (xs ! i) v \<and> (\<forall>k<i. \<not> same (xs ! k) v)"
proof (induction xs arbitrary: i)
  case Nil
  then show ?case by simp
next
  case (Cons u us)
  show ?case
  proof (cases "same u v")
    case True
    with Cons.prems show ?thesis by simp
  next
    case False
    with Cons.prems obtain j where j: "list_index same us v = Some j" "i = Suc j"
      by auto
    from Cons.IH [OF j(1)] False j(2) show ?thesis
      by (auto simp: nth_Cons split: nat.splits)
  qed
qed

lemma resolve_first_equal:
  "resolve alive flat subject a = Inr n \<Longrightarrow> first_equal alive flat a n"
  by (auto simp: resolve_def first_equal_def split: option.splits dest!: list_index_Some)

lemma traverse_rel:
  "traverse f xs = Inr ys \<Longrightarrow> (\<And>x y. f x = Inr y \<Longrightarrow> R x y) \<Longrightarrow> list_all2 R xs ys"
  by (induction xs arbitrary: ys) (auto split: sum.splits)

lemma traverse_option_rel:
  "traverse_option f x = Inr y \<Longrightarrow> (\<And>v w. f v = Inr w \<Longrightarrow> R v w) \<Longrightarrow> rel_option R x y"
  by (cases x) (auto split: sum.splits)

lemma traverse_point_rel:
  "traverse_point r p = Inr q \<Longrightarrow> (\<And>a n. r a = Inr n \<Longrightarrow> R a n) \<Longrightarrow> rel_point R p q"
  by (cases p) (auto simp: traverse_point_def split: sum.splits)

lemma traverse_points_rel:
  assumes "traverse_option (traverse (traverse_point r)) x = Inr y"
    and "\<And>a n. r a = Inr n \<Longrightarrow> R a n"
  shows "rel_option (list_all2 (rel_point R)) x y"
  using assms(1)
  by (rule traverse_option_rel) (erule traverse_rel, erule traverse_point_rel, erule assms(2))

lemma traverse_side_rel:
  assumes "traverse_side r s = Inr s'" and "\<And>a n. r a = Inr n \<Longrightarrow> R a n"
  shows "rel_circuit_connections R s s'"
proof -
  from assms(1) obtain rd gr where
    rd: "traverse_option (traverse (traverse_point r)) (red s) = Inr rd" and
    gr: "traverse_option (traverse (traverse_point r)) (green s) = Inr gr" and
    s': "s' = CircuitConnections rd gr"
    by (auto simp: traverse_side_def split: sum.splits)
  show ?thesis
    using traverse_points_rel [OF rd assms(2)] traverse_points_rel [OF gr assms(2)]
    by (cases s) (simp add: s')
qed

lemma traverse_connections_rel:
  assumes "traverse_connections r c = Inr c'" and "\<And>a n. r a = Inr n \<Longrightarrow> R a n"
  shows "rel_connections_dict R c c'"
proof -
  from assms(1) obtain w1 w2 c0 c1 where
    w1: "traverse_option (traverse_side r) (Wr1 c) = Inr w1" and
    w2: "traverse_option (traverse_side r) (Wr2 c) = Inr w2" and
    c0: "traverse_option (traverse (traverse_point r)) (Cu0 c) = Inr c0" and
    c1: "traverse_option (traverse (traverse_point r)) (Cu1 c) = Inr c1" and
    c': "c' = Connections w1 w2 c0 c1"
    by (auto simp: traverse_connections_def split: sum.splits)
  have side: "rel_option (rel_circuit_connections R) x y"
    if "traverse_option (traverse_side r) x = Inr y" for x y
    using that by (rule traverse_option_rel) (erule traverse_side_rel, erule assms(2))
  show ?thesis
    using side [OF w1] side [OF w2]
      traverse_points_rel [OF c0 assms(2)] traverse_points_rel [OF c1 assms(2)]
    by (cases c) (simp add: c')
qed

lemma resolve_entity_related:
  assumes "resolve_entity alive flat d = Inr d'"
  shows "refs_related (first_equal alive flat) d d'"
proof -
  let ?r = "resolve alive flat (OnDict d)"
  from assms obtain cs ns where
    cs: "traverse_option (traverse_connections ?r) (connections d) = Inr cs" and
    ns: "traverse_option (traverse ?r) (neighbours d) = Inr ns" and
    d': "d' = EntityDict (name d) (position d) (entity_number d) cs ns (attributes d)"
    by (auto simp: resolve_entity_def Let_def split: sum.splits)
  have r: "first_equal alive flat a n" if "?r a = Inr n" for a n
    using that by (rule resolve_first_equal)
  have "rel_option (rel_connections_dict (first_equal alive flat)) (connections d) cs"
    using cs by (rule traverse_option_rel) (erule traverse_connections_rel, erule r)
  moreover have "rel_option (list_all2 (first_equal alive flat)) (neighbours d) ns"
    using ns by (rule traverse_option_rel) (erule traverse_rel, erule r)
  ultimately show ?thesis
    by (simp add: refs_related_def d')
qed

lemma resolve_schedule_related:
  assumes "resolve_schedule alive flat s = Inr s'"
  shows "rel_schedule_dict (first_equal alive flat) s s'"
proof -
  from assms obtain ls where
    ls: "traverse (\<lambda>l. resolve alive flat (OnAssociation l) l) (locomotives s) = Inr ls" and
    s': "s' = ScheduleDict (schedule s) ls"
    by (auto simp: resolve_schedule_def split: sum.splits)
  have "list_all2 (first_equal alive flat) (locomotives s) ls"
    using ls by (rule traverse_rel) (erule resolve_first_equal)
  then show ?thesis
    by (cases s) (simp add: s')
qed

lemma refs_related_set_entity_number:
  "refs_related R (set_entity_number k d) d' = refs_related R d d'"
  by (simp add: refs_related_def set_entity_number_def)

lemma traverse_map:
  "list_all P xs \<Longrightarrow> (\<And>x. P x \<Longrightarrow> f x = Inr (h x)) \<Longrightarrow> traverse f xs = Inr (map h xs)"
  by (induction xs) auto

lemma traverse_option_map:
  "pred_option P x \<Longrightarrow> (\<And>v. P v \<Longrightarrow> f v = Inr (h v))
     \<Longrightarrow> traverse_option f x = Inr (map_option h x)"
  by (cases x) auto

lemma traverse_point_map:
  "pred_point P p \<Longrightarrow> (\<And>a. P a \<Longrightarrow> f a = Inr (h a))
     \<Longrightarrow> traverse_point f p = Inr (map_point h p)"
  by (cases p) (simp add: traverse_point_def)

lemma traverse_points_map:
  assumes p: "pred_option (list_all (pred_point P)) x"
    and f: "\<And>a. P a \<Longrightarrow> f a = Inr (h a)"
  shows "traverse_option (traverse (traverse_point f)) x
           = Inr (map_option (map (map_point h)) x)"
proof (rule traverse_option_map [OF p])
  fix v assume v: "list_all (pred_point P) v"
  show "traverse (traverse_point f) v = Inr (map (map_point h) v)"
  proof (rule traverse_map [OF v])
    fix q assume "pred_point P q"
    then show "traverse_point f q = Inr (map_point h q)"
      using f by (rule traverse_point_map)
  qed
qed

lemma traverse_side_map:
  assumes p: "pred_circuit_connections P s"
    and f: "\<And>a. P a \<Longrightarrow> f a = Inr (h a)"
  shows "traverse_side f s = Inr (map_circuit_connections h s)"
proof -
  from p have pr: "pred_option (list_all (pred_point P)) (red s)"
    and pg: "pred_option (list_all (pred_point P)) (green s)"
    by (cases s; simp)+
  show ?thesis
    using traverse_points_map [OF pr f] traverse_points_map [OF pg f]
    by (cases s) (simp add: traverse_side_def)
qed

lemma traverse_connections_map:
  assumes p: "pred_connections_dict P c"
    and f: "\<And>a. P a \<Longrightarrow> f a = Inr (h a)"
  shows "traverse_connections f c = Inr (map_connections_dict h c)"
proof -
  from p have p1: "pred_option (pred_circuit_connections P) (Wr1 c)"
    and p2: "pred_option (pred_circuit_connections P) (Wr2 c)"
    and p3: "pred_option (list_all (pred_point P)) (Cu0 c)"
    and p4: "pred_option (list_all (pred_point P)) (Cu1 c)"
    by (cases c; simp)+
  have side: "traverse_option (traverse_side f) x = Inr (map_option (map_circuit_connections h) x)"
    if "pred_option (pred_circuit_connections P) x" for x
    using that
  proof (rule traverse_option_map)
    fix v assume "pred_circuit_connections P v"
    then show "traverse_side f v = Inr (map_circuit_connections h v)"
      using f by (rule traverse_side_map)
  qed
  show ?thesis
    using side [OF p1] side [OF p2] traverse_points_map [OF p3 f] traverse_points_map [OF p4 f]
    by (cases c) (simp add: traverse_connections_def)
qed

lemma number_entities_total:
  "(\<And>e. e \<in> set es \<Longrightarrow> entity_to_dict e \<noteq> None) \<Longrightarrow> \<exists>out. number_entities i es = Inr out"
proof (induction es arbitrary: i)
  case Nil
  then show ?case by simp
next
  case (Cons e es)
  from Cons.prems obtain d where d: "entity_to_dict e = Some d" by fastforce
  from Cons.IH [of "Suc i"] Cons.prems obtain out where "number_entities (Suc i) es = Inr out"
    by auto
  with d show ?case by simp
qed

lemma normalize_related:
  assumes "normalize_internal_structure alive es ts ss = Inr n"
  shows "list_all2 (\<lambda>e d'. \<exists>d. entity_to_dict e = Some d
                    \<and> refs_related (first_equal alive (flatten_entities es)) d d')
           (flatten_entities es) (entities_out n)
         \<and> list_all2 (rel_schedule_dict (first_equal alive (flatten_entities es)))
             ss (schedules_out n)"
proof -
  let ?flat = "flatten_entities es"
  from assms obtain numbered where
    num: "number_entities 0 ?flat = Inr numbered" and
    tr: "traverse (resolve_entity alive ?flat) numbered = Inr (entities_out n)" and
    sc: "traverse (resolve_schedule alive ?flat) ss = Inr (schedules_out n)"
    by (auto simp: normalize_internal_structure_def Let_def split: sum.splits)
  have len1: "length numbered = length ?flat"
    using num by (rule number_entities_length)
  have len2: "length (entities_out n) = length ?flat"
    using traverse_length [OF tr] len1 by simp
  have "list_all2 (\<lambda>e d'. \<exists>d. entity_to_dict e = Some d
            \<and> refs_related (first_equal alive ?flat) d d') ?flat (entities_out n)"
  proof (rule list_all2_all_nthI)
    show "length ?flat = length (entities_out n)" using len2 by simp
  next
    fix k assume k: "k < length ?flat"
    from number_entities_nth [OF num k] obtain d where
      d: "entity_to_dict (?flat ! k) = Some d"
      and nk: "numbered ! k = set_entity_number (int (0 + k) + 1) d"
      by auto
    have "resolve_entity alive ?flat (numbered ! k) = Inr (entities_out n ! k)"
      using traverse_nth [OF tr] k len1 by simp
    then have "refs_related (first_equal alive ?flat) (numbered ! k) (entities_out n ! k)"
      by (rule resolve_entity_related)
    with d nk show "\<exists>d. entity_to_dict (?flat ! k) = Some d
        \<and> refs_related (first_equal alive ?flat) d (entities_out n ! k)"
      by (simp add: refs_related_set_entity_number)
  qed
  moreover have "list_all2 (rel_schedule_dict (first_equal alive ?flat)) ss (schedules_out n)"
    using sc by (rule traverse_rel) (erule resolve_schedule_related)
  ultimately show ?thesis by simp
qed

lemma list_index_total:
  "list_ex (\<lambda>u. same u v) xs \<Longrightarrow> \<exists>i. list_index same xs v = Some i"
  by (induction xs) auto

lemma resolve_total:
  assumes "resolvable alive flat a"
  shows "resolve alive flat subject a
           = Inr (int (the (list_index py_same flat (the (alive (referent a))))) + 1)"
proof -
  from assms obtain t where t: "alive (referent a) = Some t" "list_ex (\<lambda>u. py_same u t) flat"
    by (auto simp: resolvable_def split: option.splits)
  from list_index_total [where same = py_same and v = t and xs = flat] t(2)
  obtain i where "list_index py_same flat t = Some i"
    by blast
  with t(1) show ?thesis
    by (simp add: resolve_def)
qed

lemma traverse_total:
  "(\<And>x. x \<in> set xs \<Longrightarrow> \<exists>y. f x = Inr y) \<Longrightarrow> \<exists>ys. traverse f xs = Inr ys"
proof (induction xs)
  case Nil
  then show ?case by simp
next
  case (Cons x xs)
  from Cons.prems obtain y where y: "f x = Inr y" by fastforce
  from Cons.IH Cons.prems obtain ys where "traverse f xs = Inr ys" by fastforce
  with y show ?case by simp
qed

lemma resolve_entity_total:
  assumes p: "pred_entity_dict (resolvable alive flat) d"
  shows "\<exists>d'. resolve_entity alive flat d = Inr d'"
proof -
  let ?r = "resolve alive flat (OnDict d)"
  let ?h = "\<lambda>a. int (the (list_index py_same flat (the (alive (referent a))))) + 1"
  from p have pc: "pred_option (pred_connections_dict (resolvable alive flat)) (connections d)"
    and pn: "pred_option (list_all (resolvable alive flat)) (neighbours d)"
    by (cases d; simp)+
  have f: "?r a = Inr (?h a)" if "resolvable alive flat a" for a
    using that by (rule resolve_total)
  have "traverse_option (traverse_connections ?r) (connections d)
          = Inr (map_option (map_connections_dict ?h) (connections d))"
  proof (rule traverse_option_map [OF pc])
    fix c assume "pred_connections_dict (resolvable alive flat) c"
    then show "traverse_connections ?r c = Inr (map_connections_dict ?h c)"
      using f by (rule traverse_connections_map)
  qed
  moreover have "traverse_option (traverse ?r) (neighbours d)
          = Inr (map_option (map ?h) (neighbours d))"
  proof (rule traverse_option_map [OF pn])
    fix ns assume "list_all (resolvable alive flat) ns"
    then show "traverse ?r ns = Inr (map ?h ns)"
      using f by (rule traverse_map)
  qed
  ultimately show ?thesis
    by (simp add: resolve_entity_def Let_def)
qed

lemma resolve_schedule_total:
  assumes p: "pred_schedule_dict (resolvable alive flat) s"
  shows "\<exists>s'. resolve_schedule alive flat s = Inr s'"
proof -
  let ?h = "\<lambda>a. int (the (list_index py_same flat (the (alive (referent a))))) + 1"
  from p have "list_all (resolvable alive flat) (locomotives s)"
    by (cases s) simp
  then have "traverse (\<lambda>l. resolve alive flat (OnAssociation l) l) (locomotives s)
               = Inr (map ?h (locomotives s))"
    by (rule traverse_map) (rule resolve_total)
  then show ?thesis
    by (simp add: resolve_schedule_def)
qed

lemma pred_set_entity_number:
  "pred_entity_dict P (set_entity_number k d) = pred_entity_dict P d"
  by (cases d) (simp add: set_entity_number_def)

lemma normalize_total:
  assumes dicts: "list_all (\<lambda>e. case entity_to_dict e of
                      None \<Rightarrow> False
                    | Some d \<Rightarrow> pred_entity_dict (resolvable alive (flatten_entities es)) d)
                    (flatten_entities es)"
    and scheds: "list_all (pred_schedule_dict (resolvable alive (flatten_entities es))) ss"
  shows "\<exists>n. normalize_internal_structure alive es ts ss = Inr n"
proof -
  let ?flat = "flatten_entities es"
  have "\<exists>out. number_entities 0 ?flat = Inr out"
  proof (rule number_entities_total)
    fix e assume "e \<in> set ?flat"
    with dicts show "entity_to_dict e \<noteq> None"
      by (auto simp: list_all_iff split: option.splits)
  qed
  then obtain numbered where num: "number_entities 0 ?flat = Inr numbered" ..
  have len: "length numbered = length ?flat"
    using num by (rule number_entities_length)
  have "\<exists>out. traverse (resolve_entity alive ?flat) numbered = Inr out"
  proof (rule traverse_total)
    fix x assume "x \<in> set numbered"
    then obtain k where k: "k < length ?flat" and x: "x = numbered ! k"
      using len by (auto simp: in_set_conv_nth)
    from number_entities_nth [OF num k] obtain d where
      d: "entity_to_dict (?flat ! k) = Some d"
      and nk: "numbered ! k = set_entity_number (int (0 + k) + 1) d"
      by auto
    from dicts k d have "pred_entity_dict (resolvable alive ?flat) d"
      by (auto simp: list_all_length split: option.splits)
    then have "pred_entity_dict (resolvable alive ?flat) x"
      by (simp add: x nk pred_set_entity_number)
    then show "\<exists>y. resolve_entity alive ?flat x = Inr y"
      by (rule resolve_entity_total)
  qed
  then obtain out where tr: "traverse (resolve_entity alive ?flat) numbered = Inr out" ..
  have "\<exists>out. traverse (resolve_schedule alive ?flat) ss = Inr out"
  proof (rule traverse_total)
    fix s assume "s \<in> set ss"
    with scheds have "pred_schedule_dict (resolvable alive ?flat) s"
      by (simp add: list_all_iff)
    then show "\<exists>y. resolve_schedule alive ?flat s = Inr y"
      by (rule resolve_schedule_total)
  qed
  then obtain sout where sc: "traverse (resolve_schedule alive ?flat) ss = Inr sout" ..
  show ?thesis
    by (simp add: normalize_internal_structure_def Let_def num tr sc)
qed

text \<open>
  C10.  Whenever \<open>_normalize_internal_structure\<close> returns, every association of the wire
  connections and the neighbours of every entity, and every locomotive association of every
  schedule, has been replaced by one plus the index of the first entity of the flattened
  list that is its referent or compares equal to it.  And it does return whenever every
  entity of the flattened list gives a dict and the referent of every such association is
  alive and is, or compares equal to, an entity of the flattened list.  So a reference to
  the later of two equal entities is exported as the number of the earlier one.
\<close>

theorem association_by_equality:
  "(normalize_internal_structure alive es ts ss = Inr n \<longrightarrow>
      list_all2 (\<lambda>e d'. \<exists>d. entity_to_dict e = Some d
                    \<and> refs_related (first_equal alive (flatten_entities es)) d d')
           (flatten_entities es) (entities_out n)
      \<and> list_all2 (rel_schedule_dict (first_equal alive (flatten_entities es)))
           ss (schedules_out n))
   \<and> (list_all (\<lambda>e. case entity_to_dict e of
                      None \<Rightarrow> False
                    | Some d \<Rightarrow> pred_entity_dict (resolvable alive (flatten_entities es)) d)
           (flatten_entities es)
        \<and> list_all (pred_schedule_dict (resolvable alive (flatten_entities es))) ss
      \<longrightarrow> (\<exists>n'. normalize_internal_structure alive es ts ss = Inr n'))"
  using normalize_related [of alive es ts ss n] normalize_total [of alive es ss ts]
  by blast

section \<open>The examples, evaluated\<close>

lemma flatten_grouped:
  "flatten_entities grouped_entities =
     [pole 0 (1/2) (Some [Association 1]), pole 1 (5/2) None, pole 2 (9/2) None]"
  by (simp add: flatten_entities_def grouped_entities_def)

lemma grouped_export:
  "to_dict grouped_alive plain_base grouped_blueprint = (Inr grouped_result, grouped_blueprint)"
  by (simp add: to_dict_def normalize_internal_structure_def grouped_blueprint_def
      grouped_alive_def flatten_grouped pole_def resolve_entity_def resolve_def store_of_def
      py_same_def entity_eq_def Let_def set_entity_number_def plain_base_def
      grouped_result_def strip_defaults_def offset_entity_def offset_tile_def)

lemma empty_export:
  "to_dict alive plain_base empty_blueprint = (Inr empty_result, empty_blueprint)"
  by (simp add: to_dict_def normalize_internal_structure_def empty_blueprint_def
      flatten_entities_def Let_def plain_base_def empty_result_def strip_defaults_def)

theorem entity_numbering_witness:
  "to_dict grouped_alive plain_base grouped_blueprint = (Inr grouped_result, grouped_blueprint)
   \<and> map entity_number (listed (key_entities grouped_result)) = [Some 1, Some 2, Some 3]"
proof -
  have "map entity_number (listed (key_entities grouped_result))
          = map Some [1 .. int (sum_list (map primitive_count (entities grouped_blueprint)))]"
    using entity_numbering [OF grouped_export] .
  also have "\<dots> = [Some 1, Some 2, Some 3]"
    by (simp add: grouped_blueprint_def grouped_entities_def upto_rec1)
  finally show ?thesis
    using grouped_export by simp
qed

lemma flatten_twin:
  "flatten_entities twin_entities =
     [pole 0 (1/2) None, pole 1 (5/2) (Some [Association 3]),
      pole 2 (5/2) (Some [Association 3]),
      pole 3 (9/2) (Some [Association 1, Association 2])]"
  by (simp add: flatten_entities_def twin_entities_def)

lemma twin_normalize:
  "normalize_internal_structure twin_alive twin_entities [] [] = Inr twin_normalized"
  by (simp add: normalize_internal_structure_def twin_alive_def flatten_twin pole_def
      resolve_entity_def resolve_def store_of_def py_same_def entity_eq_def Let_def
      set_entity_number_def twin_normalized_def)

lemma twin_resolvable:
  "list_all (\<lambda>e. case entity_to_dict e of
                None \<Rightarrow> False
              | Some d \<Rightarrow>
                  pred_entity_dict (resolvable twin_alive (flatten_entities twin_entities)) d)
     (flatten_entities twin_entities)"
  by (simp add: twin_alive_def flatten_twin pole_def resolvable_def store_of_def py_same_def
      entity_eq_def)

theorem association_by_equality_witness:
  "list_all (\<lambda>e. case entity_to_dict e of
                None \<Rightarrow> False
              | Some d \<Rightarrow>
                  pred_entity_dict (resolvable twin_alive (flatten_entities twin_entities)) d)
     (flatten_entities twin_entities)
   \<and> list_all (pred_schedule_dict (resolvable twin_alive (flatten_entities twin_entities))) []
   \<and> normalize_internal_structure twin_alive twin_entities [] [] = Inr twin_normalized
   \<and> map neighbours (entities_out twin_normalized) = [None, Some [4], Some [4], Some [2, 2]]
   \<and> list_all2 (\<lambda>e d'. \<exists>d. entity_to_dict e = Some d
              \<and> refs_related (first_equal twin_alive (flatten_entities twin_entities)) d d')
        (flatten_entities twin_entities) (entities_out twin_normalized)
   \<and> list_all2 (rel_schedule_dict (first_equal twin_alive (flatten_entities twin_entities)))
        [] (schedules_out twin_normalized)"
proof -
  have "map neighbours (entities_out twin_normalized) = [None, Some [4], Some [4], Some [2, 2]]"
    by (simp add: twin_normalized_def)
  moreover have "\<exists>n'. normalize_internal_structure twin_alive twin_entities [] [] = Inr n'"
    using association_by_equality [of twin_alive twin_entities "[]" "[]" twin_normalized]
      twin_resolvable by simp
  ultimately show ?thesis
    using twin_normalize twin_resolvable
      association_by_equality [of twin_alive twin_entities "[]" "[]" twin_normalized]
    by simp
qed

section \<open>Dangling references\<close>

lemma resolve_dead:
  "alive (referent a) = None
     \<Longrightarrow> resolve alive flat subject a = Inl (throw_invalid_association subject)"
  by (simp add: resolve_def)

text \<open>
  C2.  The wire and neighbour loops raise the association error that names the entity and
  its position.  The schedule loop passes the locomotive \<open>Association\<close> itself to
  \<open>_throw_invalid_association\<close>, which subscripts it: the export of a schedule with a dead
  locomotive ends in \<open>TypeError\<close>, not in the association error.
\<close>

theorem dangling_locomotive_raises_type_error:
  "fst (to_dict stale_neighbour_alive plain_base stale_neighbour_blueprint)
     = Inl (InvalidAssociationError ''small-electric-pole'' (XY (1/2) (1/2)))
   \<and> fst (to_dict (store_of []) plain_base stale_schedule_blueprint) = Inl TypeError"
  by (simp add: to_dict_def normalize_internal_structure_def stale_neighbour_blueprint_def
      stale_schedule_blueprint_def empty_blueprint_def flatten_entities_def pole_def
      resolve_entity_def resolve_schedule_def resolve_def store_of_def Let_def
      set_entity_number_def stale_neighbour_alive_def)

section \<open>Export leaves names, positions and tiles as they are\<close>

lemma resolve_entity_fields:
  "resolve_entity alive flat d = Inr d'
     \<Longrightarrow> name d' = name d \<and> position d' = position d \<and> attributes d' = attributes d"
  by (auto simp: resolve_entity_def Let_def split: sum.splits)

lemma normalize_fields:
  assumes "normalize_internal_structure alive es ts ss = Inr n"
  shows "list_all2 (\<lambda>e d'. \<exists>d. entity_to_dict e = Some d \<and> name d' = name d
                      \<and> position d' = position d \<and> attributes d' = attributes d)
           (flatten_entities es) (entities_out n)"
    and "tiles_out n = ts"
proof -
  let ?flat = "flatten_entities es"
  from assms obtain numbered where
    num: "number_entities 0 ?flat = Inr numbered" and
    tr: "traverse (resolve_entity alive ?flat) numbered = Inr (entities_out n)" and
    ts: "tiles_out n = ts"
    by (auto simp: normalize_internal_structure_def Let_def split: sum.splits)
  have len1: "length numbered = length ?flat"
    using num by (rule number_entities_length)
  show "list_all2 (\<lambda>e d'. \<exists>d. entity_to_dict e = Some d \<and> name d' = name d
                      \<and> position d' = position d \<and> attributes d' = attributes d)
           ?flat (entities_out n)"
  proof (rule list_all2_all_nthI)
    show "length ?flat = length (entities_out n)"
      using traverse_length [OF tr] len1 by simp
  next
    fix k assume k: "k < length ?flat"
    from number_entities_nth [OF num k] obtain d where
      d: "entity_to_dict (?flat ! k) = Some d"
      and nk: "numbered ! k = set_entity_number (int (0 + k) + 1) d"
      by auto
    have "resolve_entity alive ?flat (numbered ! k) = Inr (entities_out n ! k)"
      using traverse_nth [OF tr] k len1 by simp
    from resolve_entity_fields [OF this] d nk
    show "\<exists>d. entity_to_dict (?flat ! k) = Some d \<and> name (entities_out n ! k) = name d
            \<and> position (entities_out n ! k) = position d
            \<and> attributes (entities_out n ! k) = attributes d"
      by (simp add: set_entity_number_def)
  qed
  show "tiles_out n = ts" by (rule ts)
qed

section \<open>The snapping grid offset\<close>










text \<open>
  When the dict of an entity holds the position object that the entity keeps, the export
  changes the stored position: in the blueprint with the three poles and the snapping grid
  at \<open>(1, 2)\<close>, the first pole is at \<open>(1/2, 1/2)\<close> before the export and at
  \<open>(-1/2, -3/2)\<close> after it.
\<close>

lemma shared_position_is_overwritten:
  "stored_positions grouped_blueprint (EntityPosition 0) = Some (XY (1/2) (1/2))
   \<and> memory_after (\<lambda>e. True) (\<lambda>j. False) grouped_blueprint (EntityPosition 0)
       = Some (XY (- (1/2)) (- (3/2)))"
  by (simp add: memory_after_def entity_objects_def tile_objects_def after_dump_def
      stored_positions_def grouped_blueprint_def flatten_grouped pole_def subtract_grid_def
      subtract_x_def subtract_y_def real_xy_def enumerate_eq_zip upt_rec)


section \<open>Keys left out of the export\<close>

lemma strip_defaults_keys:
  "key_snap_to_grid (strip_defaults r)
     = (if key_snap_to_grid r = Some (XY 0 0) then None else key_snap_to_grid r)"
  "key_position_relative_to_grid (strip_defaults r)
     = (if key_position_relative_to_grid r = Some (XY 0 0) then None
        else key_position_relative_to_grid r)"
  "key_entities (strip_defaults r) = (if key_entities r = Some [] then None else key_entities r)"
  "key_tiles (strip_defaults r) = (if key_tiles r = Some [] then None else key_tiles r)"
  "key_schedules (strip_defaults r)
     = (if key_schedules r = Some [] then None else key_schedules r)"
  by (simp_all add: strip_defaults_def Let_def)

text \<open>
  C6.  Whenever \<open>to_dict\<close> returns: the key \<open>snap-to-grid\<close> is absent when the dumped value
  was \<open>{x: 0, y: 0}\<close>, and so is \<open>position-relative-to-grid\<close>; the key \<open>entities\<close> is
  absent when the flattened entity list is empty, \<open>tiles\<close> when there are no tiles,
  \<open>schedules\<close> when there are no schedules.
\<close>

theorem default_keys_omitted:
  assumes "to_dict alive base self = (Inr result, self')"
  shows "(key_snap_to_grid base = Some (XY 0 0) \<longrightarrow> key_snap_to_grid result = None)
    \<and> (key_position_relative_to_grid base = Some (XY 0 0)
          \<longrightarrow> key_position_relative_to_grid result = None)
    \<and> (flatten_entities (entities self) = [] \<longrightarrow> key_entities result = None)
    \<and> (tiles self = [] \<longrightarrow> key_tiles result = None)
    \<and> (schedules self = [] \<longrightarrow> key_schedules result = None)"
proof -
  let ?g = "snapping_grid_position self"
  from to_dict_Inr [OF assms] obtain n where
    n: "normalize_internal_structure alive (entities self) (tiles self) (schedules self) = Inr n"
    and res: "result = strip_defaults
       (base\<lparr>key_entities := Some (map (offset_entity ?g) (entities_out n)),
             key_tiles := Some (map (offset_tile ?g) (tiles_out n)),
             key_schedules := Some (schedules_out n)\<rparr>)"
    by blast
  have len_e: "length (entities_out n) = length (flatten_entities (entities self))"
    using list_all2_lengthD [OF normalize_fields(1) [OF n]] by simp
  have len_s: "length (schedules_out n) = length (schedules self)"
    using n by (auto simp: normalize_internal_structure_def Let_def split: sum.splits
        dest: traverse_length)
  have "flatten_entities (entities self) = [] \<longrightarrow> key_entities result = None"
    using len_e by (auto simp: res strip_defaults_keys)
  moreover have "tiles self = [] \<longrightarrow> key_tiles result = None"
    by (simp add: res strip_defaults_keys normalize_fields(2) [OF n])
  moreover have "schedules self = [] \<longrightarrow> key_schedules result = None"
    using len_s by (auto simp: res strip_defaults_keys)
  moreover have "key_snap_to_grid base = Some (XY 0 0) \<longrightarrow> key_snap_to_grid result = None"
    by (simp add: res strip_defaults_keys)
  moreover have "key_position_relative_to_grid base = Some (XY 0 0)
          \<longrightarrow> key_position_relative_to_grid result = None"
    by (simp add: res strip_defaults_keys)
  ultimately show ?thesis by blast
qed

theorem default_keys_omitted_witness:
  "to_dict grouped_alive plain_base empty_blueprint = (Inr empty_result, empty_blueprint)
   \<and> key_snap_to_grid plain_base = Some (XY 0 0)
   \<and> key_position_relative_to_grid plain_base = Some (XY 0 0)
   \<and> flatten_entities (entities empty_blueprint) = []
   \<and> tiles empty_blueprint = [] \<and> schedules empty_blueprint = []
   \<and> key_snap_to_grid empty_result = None \<and> key_position_relative_to_grid empty_result = None
   \<and> key_entities empty_result = None \<and> key_tiles empty_result = None
   \<and> key_schedules empty_result = None"
proof -
  have h: "to_dict grouped_alive plain_base empty_blueprint = (Inr empty_result, empty_blueprint)"
    by (rule empty_export)
  have "key_snap_to_grid plain_base = Some (XY 0 0)"
    "key_position_relative_to_grid plain_base = Some (XY 0 0)"
    "flatten_entities (entities empty_blueprint) = []"
    "tiles empty_blueprint = []" "schedules empty_blueprint = []"
    by (simp_all add: plain_base_def empty_blueprint_def flatten_entities_def)
  with h default_keys_omitted [OF h] show ?thesis
    by blast
qed

section \<open>The size limit\<close>

lemma one_chest_appended:
  "entities_append tile_box no_check empty_blueprint (chest 0 (1/2) []) False = (None, one_chest)"
  by (simp add: entities_append_def on_entity_insert_def handle_overlapping_def
      empty_blueprint_def no_check_def tile_box_def chest_def extend_aabb_def
      aabb_to_dimensions_def one_chest_def Let_def)


section \<open>Merging\<close>





text \<open>
  A pole with a wire merged into a pole without one: the survivor carries the wire.
\<close>

lemma merge_carries_wires:
  "entity_merge (pole 0 (1/2) None) (pole 5 (1/2) (Some [Association 9]))
     = pole 0 (1/2) (Some [Association 9])"
  by (simp add: entity_merge_def pole_def merge_option_def)




section \<open>Unrecognised keys and validation modes\<close>







section \<open>Colours\<close>

lemma channel_number:
  "to_float v = Some x \<Longrightarrow> 0 \<le> x \<Longrightarrow> x \<le> 255 \<Longrightarrow> channel to_float v = Inr x"
  by (simp add: channel_def)

text \<open>
  C9, as stated, fails on the alpha: a colour given as three numbers has no alpha at all,
  on either scale.
\<close>

theorem omitted_alpha_stays_absent:
  "Color as_float (FromSequence [PyFloat (1/2), PyFloat (1/2), PyFloat (1/2)])
     = Inr \<lparr>color_r = 1/2, color_g = 1/2, color_b = 1/2, color_a = None\<rparr>
   \<and> Color as_float (FromSequence [PyInt 127, PyInt 127, PyInt 127])
     = Inr \<lparr>color_r = 127, color_g = 127, color_b = 127, color_a = None\<rparr>"
  by (simp add: Color_def normalize_from_sequence_def required_channel_def
      optional_channel_def channel_def as_float_def)

text \<open>
  C9, amended.  Three values that the schema library takes for floats between 0 and 255
  are accepted as the channels \<open>r\<close>, \<open>g\<close>, \<open>b\<close>, as a sequence or as a mapping, and are
  stored as given: no scale is inferred.  Without an alpha the colour has none; a fourth
  such value (or the key \<open>a\<close>) is stored as the alpha, and elements of a sequence after the
  fourth are ignored.
\<close>

theorem color_channels_stored:
  assumes "to_float vr = Some r" "0 \<le> r" "r \<le> 255"
    and "to_float vg = Some g" "0 \<le> g" "g \<le> 255"
    and "to_float vb = Some b" "0 \<le> b" "b \<le> 255"
    and "map_of m ''r'' = Some vr" "map_of m ''g'' = Some vg" "map_of m ''b'' = Some vb"
  shows "Color to_float (FromSequence [vr, vg, vb])
           = Inr \<lparr>color_r = r, color_g = g, color_b = b, color_a = None\<rparr>
    \<and> (map_of m ''a'' = None
          \<longrightarrow> Color to_float (FromMapping m)
                = Inr \<lparr>color_r = r, color_g = g, color_b = b, color_a = None\<rparr>)
    \<and> (va \<noteq> PyNone \<and> to_float va = Some a \<and> 0 \<le> a \<and> a \<le> 255
          \<longrightarrow> Color to_float (FromSequence (vr # vg # vb # va # rest))
                = Inr \<lparr>color_r = r, color_g = g, color_b = b, color_a = Some a\<rparr>
            \<and> (map_of m ''a'' = Some va
                  \<longrightarrow> Color to_float (FromMapping m)
                        = Inr \<lparr>color_r = r, color_g = g, color_b = b, color_a = Some a\<rparr>))"
proof -
  have ch: "channel to_float vr = Inr r" "channel to_float vg = Inr g"
    "channel to_float vb = Inr b"
    using assms(1-9) by (simp_all add: channel_number)
  have req: "required_channel to_float m ''r'' = Inr r"
    "required_channel to_float m ''g'' = Inr g" "required_channel to_float m ''b'' = Inr b"
    using assms(10-12) ch by (simp_all add: required_channel_def)
  have seq3: "Color to_float (FromSequence [vr, vg, vb])
           = Inr \<lparr>color_r = r, color_g = g, color_b = b, color_a = None\<rparr>"
    using ch
    by (simp add: Color_def normalize_from_sequence_def required_channel_def
        optional_channel_def)
  have map3: "Color to_float (FromMapping m)
                = Inr \<lparr>color_r = r, color_g = g, color_b = b, color_a = None\<rparr>"
    if "map_of m ''a'' = None"
    using req that by (simp add: Color_def normalize_from_sequence_def optional_channel_def)
  have alpha: "Color to_float (FromSequence (vr # vg # vb # va # rest))
                = Inr \<lparr>color_r = r, color_g = g, color_b = b, color_a = Some a\<rparr>
            \<and> (map_of m ''a'' = Some va
                  \<longrightarrow> Color to_float (FromMapping m)
                        = Inr \<lparr>color_r = r, color_g = g, color_b = b, color_a = Some a\<rparr>)"
    if a: "va \<noteq> PyNone" "to_float va = Some a" "0 \<le> a" "a \<le> 255"
  proof -
    have cha: "channel to_float va = Inr a"
      using a(2-4) by (simp add: channel_number)
    have opt: "optional_channel to_float m' ''a'' = Inr (Some a)"
      if "map_of m' ''a'' = Some va" for m'
      using that cha a(1) by (simp add: optional_channel_def)
    have "Color to_float (FromSequence (vr # vg # vb # va # rest))
                = Inr \<lparr>color_r = r, color_g = g, color_b = b, color_a = Some a\<rparr>"
      using ch opt [of "[(''r'', vr), (''g'', vg), (''b'', vb), (''a'', va)]"]
      by (simp add: Color_def normalize_from_sequence_def required_channel_def)
    moreover have "Color to_float (FromMapping m)
                        = Inr \<lparr>color_r = r, color_g = g, color_b = b, color_a = Some a\<rparr>"
      if "map_of m ''a'' = Some va"
      using req opt [OF that] by (simp add: Color_def normalize_from_sequence_def)
    ultimately show ?thesis by blast
  qed
  show ?thesis
    using seq3 map3 alpha by blast
qed

theorem color_channels_stored_witness:
  "Color as_float (FromSequence [PyInt 127, PyInt 127, PyInt 127])
     = Inr \<lparr>color_r = 127, color_g = 127, color_b = 127, color_a = None\<rparr>
   \<and> Color as_float (FromMapping [(''r'', PyInt 127), (''g'', PyInt 127), (''b'', PyInt 127)])
     = Inr \<lparr>color_r = 127, color_g = 127, color_b = 127, color_a = None\<rparr>
   \<and> Color as_float (FromSequence [PyInt 127, PyInt 127, PyInt 127, PyFloat (1/2), PyInt 9])
     = Inr \<lparr>color_r = 127, color_g = 127, color_b = 127, color_a = Some (1/2)\<rparr>"
  using color_channels_stored [where to_float = as_float
      and vr = "PyInt 127" and vg = "PyInt 127" and vb = "PyInt 127"
      and r = 127 and g = 127 and b = 127 and va = "PyFloat (1/2)" and a = "1/2"
      and rest = "[PyInt 9]"
      and m = "[(''r'', PyInt 127), (''g'', PyInt 127), (''b'', PyInt 127)]"]
  by (simp add: as_float_def)

section \<open>Import followed by export\<close>

text \<open>
  C4.  The external representation \<open>twin_dicts\<close> numbers its four entities 1 to 4; two of
  them, entities 2 and 3, are poles of one name at one position, and the fourth names both
  as its neighbours.  Its import succeeds and gives the four objects of \<open>twin_entities\<close>,
  whatever the defaults of the other keys are.  The export of the blueprint that holds
  these objects succeeds with the same names, positions and entity numbers, and names
  entity 2 twice where the input names entities 2 and 3: the import takes the object at
  list index \<open>n - 1\<close>, the export looks the object up with \<open>list.index\<close>, which stops at the
  first entity that compares equal.
\<close>

theorem equal_entities_break_round_trip:
  "map entity_number twin_dicts = [Some 1, Some 2, Some 3, Some 4]
   \<and> (\<forall>is_default.
         setup_associations is_default twin_dicts [] = Inr (flatten_entities twin_entities, []))
   \<and> entities twin_blueprint = map Prim (flatten_entities twin_entities)
   \<and> to_dict (store_of (flatten_entities twin_entities)) plain_base twin_blueprint
       = (Inr twin_export, twin_blueprint)
   \<and> map name (listed (key_entities twin_export)) = map name twin_dicts
   \<and> map position (listed (key_entities twin_export)) = map position twin_dicts
   \<and> map entity_number (listed (key_entities twin_export)) = map entity_number twin_dicts
   \<and> map neighbours twin_dicts = [None, Some [4], Some [4], Some [2, 3]]
   \<and> map neighbours (listed (key_entities twin_export))
       = [None, Some [4], Some [4], Some [2, 2]]"
proof -
  have "setup_associations is_default twin_dicts [] = Inr (flatten_entities twin_entities, [])"
    for is_default
    by (simp add: setup_associations_def rehydrate_entity_def omit_defaults_def rehydrate_def
        py_getitem_def twin_dicts_def pole_record_def flatten_twin pole_def upt_rec Let_def)
  moreover have "entities twin_blueprint = map Prim (flatten_entities twin_entities)"
    unfolding flatten_twin by (simp add: twin_blueprint_def twin_entities_def)
  moreover have "to_dict (store_of (flatten_entities twin_entities)) plain_base twin_blueprint
       = (Inr twin_export, twin_blueprint)"
    using twin_normalize
    by (simp add: to_dict_def twin_blueprint_def empty_blueprint_def twin_alive_def
        twin_normalized_def twin_export_def plain_base_def strip_defaults_def Let_def
        offset_entity_def pole_record_def)
  moreover have "map entity_number twin_dicts = [Some 1, Some 2, Some 3, Some 4]"
    "map name (listed (key_entities twin_export)) = map name twin_dicts"
    "map position (listed (key_entities twin_export)) = map position twin_dicts"
    "map entity_number (listed (key_entities twin_export)) = map entity_number twin_dicts"
    "map neighbours twin_dicts = [None, Some [4], Some [4], Some [2, 3]]"
    "map neighbours (listed (key_entities twin_export))
       = [None, Some [4], Some [4], Some [2, 2]]"
    by (simp_all add: twin_dicts_def twin_export_def pole_record_def listed_def)
  ultimately show ?thesis
    by blast
qed

end
